theory Spec2Isabelle
  imports Complex_Main "HOL-Library.Multiset" "HOL-Library.Sublist"
begin

section \<open>Python values\<close>

text \<open>
  A Python \<open>str\<close> is a sequence of Unicode code points and \<open>len\<close> counts code points,
  so a string is modelled as a list of code points. \<open>lit\<close> embeds an ASCII literal of the
  source; code points beyond ASCII that the source's literals contain are written as numbers.
\<close>

type_synonym codepoint = nat
type_synonym str = "codepoint list"

definition lit :: "string \<Rightarrow> str" where
  "lit s = map of_char s"

text \<open>
  The exceptions the three modules raise themselves, and the ones that reach them from an
  external collaborator (the Reddit client, a vendor's client), each with its message.
\<close>

datatype py_error =
    ValueError str
  | ImportError str
  | ExternalError str

text \<open>\<open>d.get(key, default)\<close> on a dictionary of optional entries.\<close>

definition get_or :: "'a option \<Rightarrow> 'a \<Rightarrow> 'a" where
  "get_or v d = (case v of None \<Rightarrow> d | Some x \<Rightarrow> x)"

text \<open>\<open>xs[:k]\<close>: a negative bound counts from the end and never raises.\<close>

definition slice_to :: "'a list \<Rightarrow> int \<Rightarrow> 'a list" where
  "slice_to xs k = (if k < 0 then take (length xs - nat (- k)) xs else take (nat k) xs)"

text \<open>
  \<open>sorted(xs, key=key, reverse=True)\<close>: the list is reversed, sorted by a stable ascending
  sort and reversed again, which is how the interpreter keeps equal keys in their original
  order under \<open>reverse=True\<close>.
\<close>

definition sorted_reverse :: "('a \<Rightarrow> nat) \<Rightarrow> 'a list \<Rightarrow> 'a list" where
  "sorted_reverse key xs = rev (sort_key key (rev xs))"

subsection \<open>The random source\<close>

text \<open>
  \<open>random.sample(population, k)\<close> belongs to the standard library. It raises
  \<open>ValueError\<close> unless \<open>0 \<le> k \<le> len(population)\<close>; otherwise it copies the population to
  a pool and, \<open>k\<close> times, takes the element at position \<open>j = randbelow(n - i)\<close> and moves the
  last live element of the pool into the hole. The generator is not seeded by the program,
  so its successive raw draws are a parameter of the model.
\<close>

type_synonym rng = "nat \<Rightarrow> nat"

definition randbelow_seq :: "rng \<Rightarrow> nat \<Rightarrow> nat \<Rightarrow> nat list" where
  "randbelow_seq rs n k = map (\<lambda>i. rs i mod (n - i)) [0..<k]"

text \<open>
  \<open>select\<close> is the loop over the draws. A draw of \<open>randbelow\<close> is below the number of live
  elements, so the last branch is never taken in \<open>random_sample\<close>.
\<close>

fun select :: "nat list \<Rightarrow> 'a list \<Rightarrow> 'a list" where
  "select [] pool = []"
| "select (j # js) pool =
     (if j < length pool then pool ! j # select js (butlast (pool[j := last pool])) else [])"

text \<open>The draws that \<open>randbelow\<close> can return during a sample from \<open>n\<close> elements.\<close>

definition bounded_draws :: "nat \<Rightarrow> nat list \<Rightarrow> bool" where
  "bounded_draws n js = (\<forall>i<length js. js ! i < n - i)"

definition random_sample :: "rng \<Rightarrow> 'a list \<Rightarrow> int \<Rightarrow> py_error + 'a list" where
  "random_sample rs population k =
     (if 0 \<le> k \<and> k \<le> int (length population)
      then Inr (select (randbelow_seq rs (length population) (nat k)) population)
      else Inl (ValueError (lit ''Sample larger than population or is negative'')))"

section \<open>The pair sampler of \<open>generate_analysis\<close>\<close>

text \<open>
  Lines 135 to 146 of \<open>app_minimal.py\<close>:
  \<^verbatim>\<open>
  all_pairs = [(p1, p2) for p1 in posts1 for p2 in posts2]
  random_pairs = random.sample(all_pairs, min(num_samples // 2, len(all_pairs)))
  sorted_pairs = sorted(all_pairs, key=lambda x: len(x[0]) + len(x[1]), reverse=True)
  longest_pairs = sorted_pairs[:num_samples // 2]
  sample_pairs = random_pairs + longest_pairs
  ... enumerate(sample_pairs[:num_samples], 1)
  \<close>
  \<open>num_samples\<close> is a Python \<open>int\<close>; \<open>//\<close> is floor division, as \<open>div\<close> on \<open>int\<close> is.
\<close>

type_synonym pair = "str \<times> str"

definition all_pairs :: "str list \<Rightarrow> str list \<Rightarrow> pair list" where
  "all_pairs posts1 posts2 = [(p1, p2). p1 \<leftarrow> posts1, p2 \<leftarrow> posts2]"

definition combined_len :: "pair \<Rightarrow> nat" where
  "combined_len x = length (fst x) + length (snd x)"

definition random_pairs :: "rng \<Rightarrow> str list \<Rightarrow> str list \<Rightarrow> int \<Rightarrow> py_error + pair list" where
  "random_pairs rs posts1 posts2 num_samples =
     random_sample rs (all_pairs posts1 posts2)
       (min (num_samples div 2) (int (length (all_pairs posts1 posts2))))"

definition sorted_pairs :: "str list \<Rightarrow> str list \<Rightarrow> pair list" where
  "sorted_pairs posts1 posts2 = sorted_reverse combined_len (all_pairs posts1 posts2)"

definition longest_pairs :: "str list \<Rightarrow> str list \<Rightarrow> int \<Rightarrow> pair list" where
  "longest_pairs posts1 posts2 num_samples =
     slice_to (sorted_pairs posts1 posts2) (num_samples div 2)"

definition sample_pairs :: "rng \<Rightarrow> str list \<Rightarrow> str list \<Rightarrow> int \<Rightarrow> py_error + pair list" where
  "sample_pairs rs posts1 posts2 num_samples =
     (case random_pairs rs posts1 posts2 num_samples of
        Inl e \<Rightarrow> Inl e
      | Inr r \<Rightarrow> Inr (r @ longest_pairs posts1 posts2 num_samples))"

text \<open>The sample set that the prompt is built from: \<open>sample_pairs[:num_samples]\<close>.\<close>

definition sample :: "rng \<Rightarrow> str list \<Rightarrow> str list \<Rightarrow> int \<Rightarrow> py_error + pair list" where
  "sample rs posts1 posts2 num_samples =
     (case sample_pairs rs posts1 posts2 num_samples of
        Inl e \<Rightarrow> Inl e
      | Inr s \<Rightarrow> Inr (slice_to s num_samples))"

section \<open>The prompt built by \<open>generate_analysis\<close>\<close>

text \<open>
  Lines 145 to 149:
  \<^verbatim>\<open>
  pairs_text = ""
  for i, (p1, p2) in enumerate(sample_pairs[:num_samples], 1):
      pairs_text += f"\n**Pair {i}:**\n"
      pairs_text += f"<bullet> {user1}: {p1[:300]}{'...' if len(p1) > 300 else ''}\n"
      pairs_text += f"<bullet> {user2}: {p2[:300]}{'...' if len(p2) > 300 else ''}\n"
  \<close>
  where \<open><bullet>\<close> is the code point U+2022.
\<close>

definition nl :: str where
  "nl = [10]"

text \<open>The decimal digits of \<open>{i}\<close> in a format string.\<close>

fun str_of_nat :: "nat \<Rightarrow> str" where
  "str_of_nat n = (if n < 10 then [48 + n] else str_of_nat (n div 10) @ [48 + n mod 10])"

text \<open>\<open>{p[:300]}{'...' if len(p) > 300 else ''}\<close>\<close>

definition shown_body :: "str \<Rightarrow> str" where
  "shown_body p = slice_to p 300 @ (if 300 < length p then lit ''...'' else [])"

text \<open>One of the two bullet lines of a pair, and the three lines an iteration appends.\<close>

definition body_line :: "str \<Rightarrow> str \<Rightarrow> str" where
  "body_line user p = [0x2022] @ lit '' '' @ user @ lit '': '' @ shown_body p @ nl"

definition pair_block :: "str \<Rightarrow> str \<Rightarrow> nat \<Rightarrow> pair \<Rightarrow> str" where
  "pair_block user1 user2 i x =
     (case x of (p1, p2) \<Rightarrow>
        (nl @ lit ''**Pair '' @ str_of_nat i @ lit '':**'' @ nl) @
        body_line user1 p1 @
        body_line user2 p2)"

fun pairs_text_loop :: "str \<Rightarrow> str \<Rightarrow> str \<Rightarrow> nat \<Rightarrow> pair list \<Rightarrow> str" where
  "pairs_text_loop user1 user2 pairs_text i [] = pairs_text"
| "pairs_text_loop user1 user2 pairs_text i (x # xs) =
     pairs_text_loop user1 user2 (pairs_text @ pair_block user1 user2 i x) (Suc i) xs"

definition pairs_text_of :: "str \<Rightarrow> str \<Rightarrow> pair list \<Rightarrow> str" where
  "pairs_text_of user1 user2 shown = pairs_text_loop user1 user2 [] 1 shown"

text \<open>
  The format string of the prompt, before and after \<open>{pairs_text}\<close>.
\<close>

definition prompt_head :: "str \<Rightarrow> str \<Rightarrow> str" where
  "prompt_head user1 user2 =
      lit ''You are an expert social psychologist analyzing Reddit users for compatibility.'' @ nl @
      nl @
      lit ''**Users:** u/'' @ user1 @ lit '' and u/'' @ user2 @ nl @
      nl @
      lit ''**Sample Post Comparisons:**'' @ nl"

definition prompt_tail :: str where
  "prompt_tail =
      nl @
      nl @
      lit ''**Your Task:**'' @ nl @
      lit ''Create a comprehensive, insightful compatibility report with these sections:'' @ nl @
      nl @
      lit ''### '' @ [0x1F3AF] @ lit '' Overall Compatibility Score'' @ nl @
      lit ''Provide a qualitative rating (Excellent/High/Moderate/Low/Minimal) with brief justification.'' @ nl @
      nl @
      lit ''### '' @ [0x1F517] @ lit '' Shared Interests & Values  '' @ nl @
      lit ''Identify 3-5 key areas where they align. Be specific with examples from their posts.'' @ nl @
      nl @
      lit ''### '' @ [0x2696] @ [0xFE0F] @ lit '' Complementary Differences'' @ nl @
      lit ''What differences make them interesting to each other? Not conflicts, but complementary traits.'' @ nl @
      nl @
      lit ''### '' @ [0x1F4AC] @ lit '' Communication Style Analysis'' @ nl @
      lit ''How do they express themselves? Formal vs casual? Humorous vs serious? Data-driven vs emotional?'' @ nl @
      nl @
      lit ''### '' @ [0x1F31F] @ lit '' Relationship Potential'' @ nl @
      lit ''What kind of connection would work best? (Friendship, mentorship, collaboration, romantic, etc.)'' @ nl @
      nl @
      lit ''### '' @ [0x1F4A1] @ lit '' 5 Conversation Starters'' @ nl @
      lit ''Specific, engaging questions that would spark great discussions between them.'' @ nl @
      nl @
      lit ''**Tone:** Insightful, warm, honest. Focus on genuine compatibility, not forced connections.'' @ nl"

definition prompt_of :: "str \<Rightarrow> str \<Rightarrow> str \<Rightarrow> str" where
  "prompt_of user1 user2 pairs_text = prompt_head user1 user2 @ pairs_text @ prompt_tail"

section \<open>The provider registry of \<open>llm_providers.py\<close>\<close>

text \<open>
  The five provider classes differ in the environment variable they read, the module they
  import, the model they name and the shape of the vendor request. What lies outside the
  repository is a parameter: the process environment (\<open>os.getenv\<close>), whether a vendor
  module can be imported, the case tables of Unicode beyond ASCII, and the vendor call
  together with the accessor that reads the text of its first completion.
\<close>

datatype provider_class =
  GroqProvider | OpenAIProvider | AnthropicProvider | GeminiProvider | CohereProvider

datatype client = Client provider_class str

record request =
  req_model :: "str option"
  req_prompt :: str
  req_temperature :: "rat option"
  req_max_tokens :: "int option"

record kwargs =
  kw_model :: "str option"
  kw_temperature :: "rat option"
  kw_max_tokens :: "int option"

record env =
  getenv :: "str \<Rightarrow> str option"
  importable :: "str \<Rightarrow> bool"
  lower_table :: "codepoint \<Rightarrow> str"
  vendor :: "client \<Rightarrow> request \<Rightarrow> py_error + str"

record provider =
  cls :: provider_class
  api_key :: "str option"
  model :: str
  client :: "client option"

text \<open>\<open>str.lower()\<close>: the ASCII capitals are mapped here, other ASCII code points stay.\<close>

definition lower :: "(codepoint \<Rightarrow> str) \<Rightarrow> str \<Rightarrow> str" where
  "lower table s =
     concat (map (\<lambda>c. if 65 \<le> c \<and> c \<le> 90 then [c + 32]
                      else if c < 128 then [c] else table c) s)"

text \<open>Truth value of \<open>os.getenv(...)\<close> in \<open>if self.api_key:\<close>: set and not empty.\<close>

definition truthy :: "str option \<Rightarrow> bool" where
  "truthy v = (case v of None \<Rightarrow> False | Some s \<Rightarrow> s \<noteq> [])"

fun credential_env_var :: "provider_class \<Rightarrow> str" where
  "credential_env_var GroqProvider = lit ''GROQ_API_KEY''"
| "credential_env_var OpenAIProvider = lit ''OPENAI_API_KEY''"
| "credential_env_var AnthropicProvider = lit ''ANTHROPIC_API_KEY''"
| "credential_env_var GeminiProvider = lit ''GOOGLE_API_KEY''"
| "credential_env_var CohereProvider = lit ''COHERE_API_KEY''"

fun default_model :: "provider_class \<Rightarrow> str" where
  "default_model GroqProvider = lit ''llama-3.3-70b-versatile''"
| "default_model OpenAIProvider = lit ''gpt-3.5-turbo''"
| "default_model AnthropicProvider = lit ''claude-3-haiku-20240307''"
| "default_model GeminiProvider = lit ''gemini-1.5-flash''"
| "default_model CohereProvider = lit ''command''"

fun client_module :: "provider_class \<Rightarrow> str" where
  "client_module GroqProvider = lit ''groq''"
| "client_module OpenAIProvider = lit ''openai''"
| "client_module AnthropicProvider = lit ''anthropic''"
| "client_module GeminiProvider = lit ''google.generativeai''"
| "client_module CohereProvider = lit ''cohere''"

fun install_hint :: "provider_class \<Rightarrow> str" where
  "install_hint GroqProvider = lit ''Install groq: pip install groq''"
| "install_hint OpenAIProvider = lit ''Install openai: pip install openai''"
| "install_hint AnthropicProvider = lit ''Install anthropic: pip install anthropic''"
| "install_hint GeminiProvider = lit ''Install: pip install google-generativeai''"
| "install_hint CohereProvider = lit ''Install: pip install cohere''"

text \<open>
  The vendor client: built from the key, except the Gemini one, which is
  \<open>genai.GenerativeModel(self.model)\<close>.
\<close>

fun new_client :: "provider_class \<Rightarrow> str \<Rightarrow> client" where
  "new_client GeminiProvider key = Client GeminiProvider (default_model GeminiProvider)"
| "new_client c key = Client c key"

text \<open>
  \<open>__init__\<close> of each class:
  \<^verbatim>\<open>
  self.api_key = os.getenv('GROQ_API_KEY')
  self.model = "llama-3.3-70b-versatile"
  self.client = None
  if self.api_key:
      try:
          from groq import Groq
          self.client = Groq(api_key=self.api_key)
      except ImportError:
          raise ImportError("Install groq: pip install groq")
  \<close>
\<close>

definition init :: "env \<Rightarrow> provider_class \<Rightarrow> py_error + provider" where
  "init e c =
     (let key = getenv e (credential_env_var c);
          self = \<lparr>cls = c, api_key = key, model = default_model c, client = None\<rparr>
      in if truthy key
         then (if importable e (client_module c)
               then Inr (self\<lparr>client := Some (new_client c (get_or key []))\<rparr>)
               else Inl (ImportError (install_hint c)))
         else Inr self)"

definition providers :: "str \<rightharpoonup> provider_class" where
  "providers = map_of
     [(lit ''groq'', GroqProvider),
      (lit ''openai'', OpenAIProvider),
      (lit ''anthropic'', AnthropicProvider),
      (lit ''gemini'', GeminiProvider),
      (lit ''cohere'', CohereProvider)]"

definition get_provider :: "env \<Rightarrow> str \<Rightarrow> py_error + provider" where
  "get_provider e provider_name =
     (case providers (lower (lower_table e) provider_name) of
        None \<Rightarrow> Inl (ValueError (lit ''Unknown provider: '' @ provider_name))
      | Some provider_class \<Rightarrow> init e provider_class)"

text \<open>
  The request each class sends: \<open>kwargs.get('temperature', 0.7)\<close> and
  \<open>kwargs.get('max_tokens', 2000)\<close> where the vendor takes them, the model of the instance or
  \<open>kwargs.get('model', self.model)\<close>. The float literal \<open>0.7\<close> is passed on untouched and is
  written as the decimal it denotes.
\<close>

definition request_of :: "provider \<Rightarrow> str \<Rightarrow> kwargs \<Rightarrow> request" where
  "request_of self prompt kw =
     (case cls self of
        GroqProvider \<Rightarrow>
          \<lparr>req_model = Some (model self), req_prompt = prompt,
           req_temperature = Some (get_or (kw_temperature kw) (7 / 10)),
           req_max_tokens = Some (get_or (kw_max_tokens kw) 2000)\<rparr>
      | OpenAIProvider \<Rightarrow>
          \<lparr>req_model = Some (get_or (kw_model kw) (model self)), req_prompt = prompt,
           req_temperature = Some (get_or (kw_temperature kw) (7 / 10)),
           req_max_tokens = Some (get_or (kw_max_tokens kw) 2000)\<rparr>
      | AnthropicProvider \<Rightarrow>
          \<lparr>req_model = Some (get_or (kw_model kw) (model self)), req_prompt = prompt,
           req_temperature = None,
           req_max_tokens = Some (get_or (kw_max_tokens kw) 2000)\<rparr>
      | GeminiProvider \<Rightarrow>
          \<lparr>req_model = None, req_prompt = prompt,
           req_temperature = None, req_max_tokens = None\<rparr>
      | CohereProvider \<Rightarrow>
          \<lparr>req_model = Some (model self), req_prompt = prompt,
           req_temperature = Some (get_or (kw_temperature kw) (7 / 10)),
           req_max_tokens = Some (get_or (kw_max_tokens kw) 2000)\<rparr>)"

text \<open>
  \<open>generate\<close> of each class:
  \<^verbatim>\<open>
  if not self.client:
      raise ValueError("GROQ_API_KEY not set")
  response = self.client.chat.completions.create(...)
  return response.choices[0].message.content
  \<close>
\<close>

definition generate :: "env \<Rightarrow> provider \<Rightarrow> str \<Rightarrow> kwargs \<Rightarrow> py_error + str" where
  "generate e self prompt kw =
     (case client self of
        None \<Rightarrow> Inl (ValueError (credential_env_var (cls self) @ lit '' not set''))
      | Some c \<Rightarrow> vendor e c (request_of self prompt kw))"

section \<open>\<open>generate_analysis\<close>\<close>

definition generate_analysis ::
  "env \<Rightarrow> rng \<Rightarrow> str \<Rightarrow> str list \<Rightarrow> str list \<Rightarrow> str \<Rightarrow> str \<Rightarrow> int \<Rightarrow> py_error + str" where
  "generate_analysis e rs provider_name posts1 posts2 user1 user2 num_samples =
     (case get_provider e provider_name of
        Inl err \<Rightarrow> Inl err
      | Inr provider \<Rightarrow>
          (case sample rs posts1 posts2 num_samples of
             Inl err \<Rightarrow> Inl err
           | Inr shown \<Rightarrow>
               generate e provider
                 (prompt_of user1 user2 (pairs_text_of user1 user2 shown))
                 \<lparr>kw_model = None, kw_temperature = Some (7 / 10), kw_max_tokens = Some 2500\<rparr>))"

section \<open>\<open>RedditScraper\<close> of \<open>reddit_scraper.py\<close>\<close>

text \<open>
  The Reddit client library, the data-frame library and the logger of \<open>utils\<close> are outside
  the source read here. The client is a parameter: constructing a handle may raise, and so
  may each of the two listings when it is iterated (unknown account, no network). A data
  frame is the list of its rows, \<open>pd.DataFrame()\<close> and \<open>pd.DataFrame([])\<close> both being the
  frame without rows; \<open>sort_values('score', ascending=False)\<close> is a parameter as well, its
  order among equal scores being the library's. What the logger is given is collected in
  order.
\<close>

record submission =
  sub_title :: str
  sub_selftext :: str
  sub_score :: int
  sub_created_utc :: rat
  sub_subreddit :: str

record comment =
  com_body :: str
  com_score :: int
  com_created_utc :: rat
  com_subreddit :: str

record row =
  row_text :: str
  row_type :: str
  row_score :: int
  row_created_utc :: rat
  row_subreddit :: str

datatype reddit = Reddit str str str

datatype log_level = Info | Success | Warning | Error

type_synonym log_entry = "log_level \<times> str"

record praw =
  connect :: "str \<Rightarrow> str \<Rightarrow> str \<Rightarrow> py_error + reddit"
  submissions_new :: "reddit \<Rightarrow> str \<Rightarrow> int \<Rightarrow> py_error + submission list"
  comments_new :: "reddit \<Rightarrow> str \<Rightarrow> int \<Rightarrow> py_error + comment list"
  sort_values_score_desc :: "row list \<Rightarrow> row list"

record scraper =
  client_id :: "str option"
  client_secret :: "str option"
  user_agent :: str
  reddit_handle :: "reddit option"

text \<open>\<open>str(e)\<close> in the format strings of the log messages.\<close>

fun message_of :: "py_error \<Rightarrow> str" where
  "message_of (ValueError m) = m"
| "message_of (ImportError m) = m"
| "message_of (ExternalError m) = m"

text \<open>\<open>str.strip()\<close> removes the white space of Unicode at both ends.\<close>

definition is_space :: "codepoint \<Rightarrow> bool" where
  "is_space c =
     ((9 \<le> c \<and> c \<le> 13) \<or> (28 \<le> c \<and> c \<le> 32) \<or> c = 0x85 \<or> c = 0xA0 \<or> c = 0x1680 \<or>
      (0x2000 \<le> c \<and> c \<le> 0x200A) \<or> c = 0x2028 \<or> c = 0x2029 \<or> c = 0x202F \<or>
      c = 0x205F \<or> c = 0x3000)"

definition strip :: "str \<Rightarrow> str" where
  "strip s = rev (dropWhile is_space (rev (dropWhile is_space s)))"

text \<open>
  \<open>__init__\<close>: the handle is built at once when both credentials are given; a failure there
  is logged and leaves the handle unset.
\<close>

definition scraper_init ::
  "praw \<Rightarrow> str option \<Rightarrow> str option \<Rightarrow> str option \<Rightarrow> scraper \<times> log_entry list" where
  "scraper_init api cid secret agent =
     (let self = \<lparr>client_id = cid, client_secret = secret,
                  user_agent = (if truthy agent then get_or agent [] else lit ''CompatibilityAnalyzer/1.0''),
                  reddit_handle = None\<rparr>
      in if truthy cid \<and> truthy secret
         then (case connect api (get_or cid []) (get_or secret []) (user_agent self) of
                 Inr r \<Rightarrow> (self\<lparr>reddit_handle := Some r\<rparr>, [(Success, lit ''Reddit API initialized'')])
               | Inl e \<Rightarrow>
                   (self, [(Warning, lit ''Reddit API init failed: '' @ message_of e),
                           (Info, lit ''Will use read-only mode'')]))
         else (self, []))"

text \<open>The rows appended by the two loops of \<open>fetch_user_posts\<close>.\<close>

definition submission_rows :: "submission list \<Rightarrow> row list" where
  "submission_rows subs =
     concat (map (\<lambda>submission.
        let text = strip (sub_title submission @ lit ''. '' @ sub_selftext submission)
        in if text \<noteq> [] \<and> 10 < length text
           then [\<lparr>row_text = text, row_type = lit ''submission'',
                  row_score = sub_score submission,
                  row_created_utc = sub_created_utc submission,
                  row_subreddit = sub_subreddit submission\<rparr>]
           else []) subs)"

definition comment_rows :: "comment list \<Rightarrow> row list" where
  "comment_rows coms =
     concat (map (\<lambda>comment.
        let text = strip (com_body comment)
        in if text \<noteq> [] \<and> 10 < length text
           then [\<lparr>row_text = text, row_type = lit ''comment'',
                  row_score = com_score comment,
                  row_created_utc = com_created_utc comment,
                  row_subreddit = com_subreddit comment\<rparr>]
           else []) coms)"

text \<open>
  The \<open>try\<close> block of \<open>fetch_user_posts\<close> with its handler:
  \<^verbatim>\<open>
  except Exception as e:
      PipelineLogger.error(f"Failed to fetch u/{username}: {e}")
      return pd.DataFrame()
  \<close>
\<close>

definition fetch_failed :: "str \<Rightarrow> py_error \<Rightarrow> log_entry list \<Rightarrow> (py_error + row list) \<times> log_entry list" where
  "fetch_failed username e logged =
     (Inr [], logged @ [(Error, lit ''Failed to fetch u/'' @ username @ lit '': '' @ message_of e)])"

definition fetch_try ::
  "praw \<Rightarrow> reddit \<Rightarrow> str \<Rightarrow> int \<Rightarrow> log_entry list \<Rightarrow> (py_error + row list) \<times> log_entry list" where
  "fetch_try api r username limit log0 =
     (let log1 = log0 @ [(Info, lit ''  Fetching submissions...'')]
      in case submissions_new api r username (limit div 2) of
           Inl e \<Rightarrow> fetch_failed username e log1
         | Inr subs \<Rightarrow>
             (let log2 = log1 @ [(Info, lit ''  Fetching comments...'')]
              in case comments_new api r username (limit div 2) of
                   Inl e \<Rightarrow> fetch_failed username e log2
                 | Inr coms \<Rightarrow>
                     (let posts_data = submission_rows subs @ comment_rows coms
                      in if 0 < length posts_data
                         then (Inr (sort_values_score_desc api posts_data),
                               log2 @ [(Success, lit ''  Fetched '' @ str_of_nat (length posts_data)
                                          @ lit '' posts from u/'' @ username)])
                         else (Inr posts_data,
                               log2 @ [(Warning, lit ''  No posts found for u/'' @ username)]))))"


section \<open>Concrete inputs\<close>

text \<open>Two small corpora, a random source, environments and Reddit clients to run the code on.\<close>

definition demo_rng :: rng where
  "demo_rng i = 3 * i + 1"


definition alice_posts :: "str list" where
  "alice_posts = [lit ''tea'', lit ''I like hiking'', lit ''ok'']"

definition bob_posts :: "str list" where
  "bob_posts = [lit ''cats'', lit ''no'', lit ''mountains are great'', lit ''yes'']"

definition long_post :: str where
  "long_post = replicate 301 120"

definition no_vendor :: "client \<Rightarrow> request \<Rightarrow> py_error + str" where
  "no_vendor c r = Inl (ExternalError (lit ''connection refused''))"

definition ascii_only :: "codepoint \<Rightarrow> str" where
  "ascii_only c = [c]"

definition bare_env :: env where
  "bare_env = \<lparr>getenv = Map.empty, importable = (\<lambda>m. False),
                lower_table = ascii_only, vendor = no_vendor\<rparr>"

definition keyed_env :: env where
  "keyed_env = \<lparr>getenv = [lit ''GROQ_API_KEY'' \<mapsto> lit ''gsk_demo''], importable = (\<lambda>m. False),
                 lower_table = ascii_only, vendor = no_vendor\<rparr>"







section \<open>Properties of the sampler\<close>

lemma slice_to_nonneg: "0 \<le> k \<Longrightarrow> slice_to xs k = take (nat k) xs"
  by (simp add: slice_to_def)

lemma length_randbelow_seq: "length (randbelow_seq rs n k) = k"
  by (simp add: randbelow_seq_def)


lemma bounded_draws_Cons:
  "bounded_draws n (j # js) = (j < n \<and> bounded_draws (n - 1) js)"
proof -
  have "(\<forall>i<Suc (length js). (j # js) ! i < n - i) =
        (j < n \<and> (\<forall>i<length js. js ! i < n - Suc i))"
    by (auto simp: less_Suc_eq_0_disj)
  then show ?thesis by (simp add: bounded_draws_def)
qed

lemma bounded_randbelow_seq: "k \<le> n \<Longrightarrow> bounded_draws n (randbelow_seq rs n k)"
  by (simp add: bounded_draws_def randbelow_seq_def)

lemma length_pool_step: "j < length pool \<Longrightarrow> length (butlast (pool[j := last pool])) = length pool - 1"
  by simp


lemma length_select: "bounded_draws (length pool) js \<Longrightarrow> length (select js pool) = length js"
proof (induction js arbitrary: pool)
  case Nil
  then show ?case by simp
next
  case (Cons j js)
  then show ?case by (simp add: bounded_draws_Cons)
qed












lemma mset_sorted_reverse: "mset (sorted_reverse key xs) = mset xs"
  by (simp add: sorted_reverse_def)

lemma length_sorted_reverse: "length (sorted_reverse key xs) = length xs"
  by (simp add: sorted_reverse_def)


lemma sorted_reverse_descending:
  "sorted_wrt (\<lambda>x y. key y \<le> key x) (sorted_reverse key xs)"
proof -
  have "sorted (map key (sort_key key (rev xs)))" by simp
  then have "sorted_wrt (\<lambda>x y. key x \<le> key y) (sort_key key (rev xs))"
    by (simp only: sorted_map)
  then show ?thesis by (simp add: sorted_reverse_def sorted_wrt_rev)
qed

lemma sorted_reverse_stable:
  "filter (\<lambda>x. key x = k) (sorted_reverse key xs) = filter (\<lambda>x. key x = k) xs"
proof -
  have "filter (\<lambda>x. key x = k) (sorted_reverse key xs) =
        rev (filter (\<lambda>x. key x = k) (sort_key key (rev xs)))"
    by (simp add: sorted_reverse_def rev_filter)
  also have "\<dots> = rev (filter (\<lambda>x. key x = k) (rev xs))"
    by (simp only: sort_key_stable)
  also have "\<dots> = filter (\<lambda>x. key x = k) xs"
    by (simp add: rev_filter)
  finally show ?thesis .
qed

lemma all_pairs_product: "all_pairs posts1 posts2 = List.product posts1 posts2"
  by (induction posts1) (simp_all add: all_pairs_def)

lemma length_all_pairs: "length (all_pairs posts1 posts2) = length posts1 * length posts2"
  by (simp add: all_pairs_product)


lemma cell_div: "j < (n::nat) \<Longrightarrow> (i * n + j) div n = i"
  by fastforce

lemma cell_mod: "j < (n::nat) \<Longrightarrow> (i * n + j) mod n = j"
  by simp

lemma all_pairs_nth:
  assumes "i < length posts1" "j < length posts2"
  shows "all_pairs posts1 posts2 ! (i * length posts2 + j) = (posts1 ! i, posts2 ! j)"
proof -
  have "i * length posts2 + j < length posts1 * length posts2"
  proof -
    have "i * length posts2 + j < Suc i * length posts2" using assms(2) by simp
    also have "\<dots> \<le> length posts1 * length posts2"
      using assms(1) by (intro mult_le_mono1) simp
    finally show ?thesis .
  qed
  moreover have "(i * length posts2 + j) div length posts2 = i"
    using assms(2) by (rule cell_div)
  moreover have "(i * length posts2 + j) mod length posts2 = j"
    using assms(2) by (rule cell_mod)
  ultimately show ?thesis
    by (simp add: all_pairs_product product_nth)
qed


lemma random_pairs_nonneg:
  assumes "0 \<le> num_samples"
  shows "random_pairs rs posts1 posts2 num_samples =
         Inr (select (randbelow_seq rs (length (all_pairs posts1 posts2))
                (min (nat (num_samples div 2)) (length (all_pairs posts1 posts2))))
              (all_pairs posts1 posts2))"
proof -
  have "0 \<le> num_samples div 2" using assms by simp
  then have "nat (min (num_samples div 2) (int (length (all_pairs posts1 posts2)))) =
             min (nat (num_samples div 2)) (length (all_pairs posts1 posts2))"
    by (simp add: min_def)
  moreover have "0 \<le> min (num_samples div 2) (int (length (all_pairs posts1 posts2)))"
    using \<open>0 \<le> num_samples div 2\<close> by simp
  ultimately show ?thesis
    by (simp add: random_pairs_def random_sample_def)
qed

lemma randbelow_seq_0: "randbelow_seq rs n 0 = []"
  by (simp add: randbelow_seq_def)

lemma length_select_randbelow:
  "k \<le> length pool \<Longrightarrow> length (select (randbelow_seq rs (length pool) k) pool) = k"
  by (simp add: length_select bounded_randbelow_seq length_randbelow_seq)

lemma longest_pairs_nonneg:
  "0 \<le> num_samples \<Longrightarrow>
   longest_pairs posts1 posts2 num_samples = take (nat (num_samples div 2)) (sorted_pairs posts1 posts2)"
  by (simp add: longest_pairs_def slice_to_nonneg)

lemma sample_nonneg:
  assumes "0 \<le> num_samples"
  shows "sample rs posts1 posts2 num_samples =
         Inr (select (randbelow_seq rs (length (all_pairs posts1 posts2))
                (min (nat (num_samples div 2)) (length (all_pairs posts1 posts2))))
              (all_pairs posts1 posts2)
              @ take (nat (num_samples div 2)) (sorted_pairs posts1 posts2))"
proof -
  let ?P = "all_pairs posts1 posts2"
  let ?k1 = "min (nat (num_samples div 2)) (length ?P)"
  let ?R = "select (randbelow_seq rs (length ?P) ?k1) ?P"
  let ?L = "take (nat (num_samples div 2)) (sorted_pairs posts1 posts2)"
  have "length ?R = ?k1" by (rule length_select_randbelow) simp
  then have "length ?R \<le> nat (num_samples div 2)" by simp
  moreover have "length ?L \<le> nat (num_samples div 2)" by simp
  ultimately have "length (?R @ ?L) \<le> nat (num_samples div 2) + nat (num_samples div 2)"
    by (simp only: length_append add_mono)
  also have "\<dots> \<le> nat num_samples" using assms by linarith
  finally have "length (?R @ ?L) \<le> nat num_samples" .
  then have "take (nat num_samples) (?R @ ?L) = ?R @ ?L" by (rule take_all)
  then show ?thesis using assms
    by (simp add: sample_def sample_pairs_def random_pairs_nonneg longest_pairs_nonneg
        slice_to_nonneg)
qed











text \<open>
  Claim C6. \<open>sorted_pairs\<close> is a rearrangement of the whole cross product in descending
  order of \<open>len(a) + len(b)\<close>; the pairs of any one combined length stand in it in the order
  they have in the cross product, which enumerates \<open>corpusA\<close> in its outer and \<open>corpusB\<close>
  in its inner loop; the longest pairs are its first \<open>num_samples div 2\<close> entries.
\<close>

theorem sorted_pairs_descending_stable:
  "mset (sorted_pairs corpusA corpusB) = mset (all_pairs corpusA corpusB)
   \<and> sorted_wrt (\<lambda>x y. combined_len y \<le> combined_len x) (sorted_pairs corpusA corpusB)
   \<and> (\<forall>k. filter (\<lambda>x. combined_len x = k) (sorted_pairs corpusA corpusB) =
           filter (\<lambda>x. combined_len x = k) (all_pairs corpusA corpusB))
   \<and> (\<forall>i<length corpusA. \<forall>j<length corpusB.
         all_pairs corpusA corpusB ! (i * length corpusB + j) = (corpusA ! i, corpusB ! j))
   \<and> (\<forall>x. combined_len x = length (fst x) + length (snd x))
   \<and> (\<forall>num_samples\<ge>0. longest_pairs corpusA corpusB num_samples =
         take (nat (num_samples div 2)) (sorted_pairs corpusA corpusB))"
proof -
  have 1: "mset (sorted_pairs corpusA corpusB) = mset (all_pairs corpusA corpusB)"
    by (simp add: sorted_pairs_def mset_sorted_reverse)
  have 2: "sorted_wrt (\<lambda>x y. combined_len y \<le> combined_len x) (sorted_pairs corpusA corpusB)"
    unfolding sorted_pairs_def by (rule sorted_reverse_descending)
  have 3: "\<forall>k. filter (\<lambda>x. combined_len x = k) (sorted_pairs corpusA corpusB) =
           filter (\<lambda>x. combined_len x = k) (all_pairs corpusA corpusB)"
    unfolding sorted_pairs_def by (simp only: sorted_reverse_stable) simp
  have 4: "\<forall>i<length corpusA. \<forall>j<length corpusB.
         all_pairs corpusA corpusB ! (i * length corpusB + j) = (corpusA ! i, corpusB ! j)"
    by (simp add: all_pairs_nth)
  have 5: "\<forall>x. combined_len x = length (fst x) + length (snd x)"
    by (simp add: combined_len_def)
  have 6: "\<forall>num_samples\<ge>0. longest_pairs corpusA corpusB num_samples =
         take (nat (num_samples div 2)) (sorted_pairs corpusA corpusB)"
    by (simp add: longest_pairs_nonneg)
  show ?thesis using 1 2 3 4 5 6 by blast
qed

theorem sorted_pairs_descending_stable_witness:
  "mset (sorted_pairs alice_posts bob_posts) = mset (all_pairs alice_posts bob_posts) \<and>
   sorted_wrt (\<lambda>x y. combined_len y \<le> combined_len x) (sorted_pairs alice_posts bob_posts) \<and>
   filter (\<lambda>x. combined_len x = 7) (sorted_pairs alice_posts bob_posts) =
     filter (\<lambda>x. combined_len x = 7) (all_pairs alice_posts bob_posts) \<and>
   all_pairs alice_posts bob_posts ! (1 * length bob_posts + 2) = (alice_posts ! 1, bob_posts ! 2) \<and>
   longest_pairs alice_posts bob_posts 4 = take (nat (4 div 2)) (sorted_pairs alice_posts bob_posts)"
proof -
  note t = sorted_pairs_descending_stable [of alice_posts bob_posts]
  have i: "1 < length alice_posts" by (simp add: alice_posts_def)
  have j: "2 < length bob_posts" by (simp add: bob_posts_def)
  have n: "(0::int) \<le> 4" by simp
  from t i j have "all_pairs alice_posts bob_posts ! (1 * length bob_posts + 2) =
      (alice_posts ! 1, bob_posts ! 2)" by blast
  moreover from t n have "longest_pairs alice_posts bob_posts 4 =
      take (nat (4 div 2)) (sorted_pairs alice_posts bob_posts)" by blast
  ultimately show ?thesis using t by blast
qed

text \<open>
  Claim C8. When either corpus is empty the sampler returns the empty sample set and raises
  nothing (for the \<open>num_samples\<close> of its contract; a negative \<open>num_samples\<close> makes
  \<open>random.sample\<close> raise whatever the corpora are).
\<close>

theorem sample_empty_corpus:
  assumes "corpusA = [] \<or> corpusB = []" and "0 \<le> num_samples"
  shows "sample rs corpusA corpusB num_samples = Inr []"
proof -
  have "all_pairs corpusA corpusB = []"
    using assms(1) length_all_pairs [of corpusA corpusB] by auto
  then show ?thesis
    using sample_nonneg [OF assms(2), of rs corpusA corpusB]
    by (simp add: sorted_pairs_def sorted_reverse_def randbelow_seq_0)
qed

theorem sample_empty_corpus_witness:
  "(([] :: str list) = [] \<or> [lit ''x''] = []) \<and> (0::int) \<le> 10 \<and>
   sample demo_rng [] [lit ''x''] 10 = Inr []"
proof -
  have c: "([] :: str list) = [] \<or> [lit ''x''] = []" by simp
  have n: "(0::int) \<le> 10" by simp
  show ?thesis using c n sample_empty_corpus [OF c n, of demo_rng] by blast
qed

text \<open>
  Claim C10. With \<open>num_samples = 1\<close> the sample set is empty for all corpora: both halves take
  \<open>1 div 2 = 0\<close> entries.
\<close>

theorem sample_one_is_empty:
  "sample rs corpusA corpusB 1 = Inr []"
  using sample_nonneg [of 1 rs corpusA corpusB] by (simp add: randbelow_seq_0)

theorem sample_one_is_empty_witness:
  "sample demo_rng alice_posts bob_posts 1 = Inr []"
  by (rule sample_one_is_empty)

section \<open>Properties of the prompt\<close>

lemma shown_body_long: "300 < length p \<Longrightarrow> shown_body p = take 300 p @ lit ''...''"
  by (simp add: shown_body_def slice_to_def)

lemma shown_body_short: "length p \<le> 300 \<Longrightarrow> shown_body p = p"
  by (simp add: shown_body_def slice_to_def)

lemma shown_body_cases:
  "shown_body p = (if 300 < length p then take 300 p @ lit ''...'' else p)"
  by (simp add: shown_body_long shown_body_short)

lemma pairs_text_loop_concat:
  "pairs_text_loop user1 user2 acc i xs =
   acc @ concat (map (\<lambda>(k, x). pair_block user1 user2 k x) (zip [i..<i + length xs] xs))"
proof (induction xs arbitrary: acc i)
  case Nil
  then show ?case by simp
next
  case (Cons x xs)
  have "[i..<i + length (x # xs)] = i # [Suc i..<Suc i + length xs]"
    by (simp add: upt_rec)
  then show ?case by (simp add: Cons.IH)
qed

lemma pairs_text_of_concat:
  "pairs_text_of user1 user2 shown =
   concat (map (\<lambda>(k, x). pair_block user1 user2 k x) (zip [1..<Suc (length shown)] shown))"
  by (simp add: pairs_text_of_def pairs_text_loop_concat)

lemma sublist_concat_member: "b \<in> set bs \<Longrightarrow> sublist b (concat bs)"
proof -
  assume "b \<in> set bs"
  then obtain ys zs where "bs = ys @ b # zs" by (auto dest: split_list)
  then have "concat bs = concat ys @ b @ concat zs" by simp
  then show ?thesis by (simp only: sublist_appendI)
qed

lemma block_in_pairs_text:
  assumes "k < length shown"
  shows "sublist (pair_block user1 user2 (Suc k) (shown ! k)) (pairs_text_of user1 user2 shown)"
proof -
  let ?z = "zip [1..<Suc (length shown)] shown"
  have "k < length ?z" using assms by simp
  moreover have "?z ! k = (Suc k, shown ! k)" using assms by (simp del: upt_Suc)
  ultimately have "(Suc k, shown ! k) \<in> set ?z" by (metis nth_mem)
  then have "(\<lambda>(k, x). pair_block user1 user2 k x) (Suc k, shown ! k)
      \<in> (\<lambda>(k, x). pair_block user1 user2 k x) ` set ?z"
    by (rule imageI)
  then have "pair_block user1 user2 (Suc k) (shown ! k)
      \<in> set (map (\<lambda>(k, x). pair_block user1 user2 k x) ?z)"
    by simp
  then show ?thesis
    unfolding pairs_text_of_concat by (rule sublist_concat_member)
qed

lemma pairs_text_in_prompt: "sublist pairs_text (prompt_of user1 user2 pairs_text)"
  by (simp only: prompt_of_def sublist_appendI)

text \<open>
  Claim C7. In the prompt, the block of the pair at position \<open>k\<close> of the sample set shows
  each of its two bodies cut after 300 code points and followed by \<open>...\<close> when the body is
  longer than 300, and as it is otherwise. The composer takes the sample set as a value and
  returns text only: slicing builds a new string, and the pairs themselves are not changed.
\<close>

theorem prompt_truncates_bodies:
  assumes "k < length shown" and "shown ! k = (p1, p2)"
  shows "sublist
     (nl @ lit ''**Pair '' @ str_of_nat (Suc k) @ lit '':**'' @ nl @
      [0x2022] @ lit '' '' @ user1 @ lit '': '' @
        (if 300 < length p1 then take 300 p1 @ lit ''...'' else p1) @ nl @
      [0x2022] @ lit '' '' @ user2 @ lit '': '' @
        (if 300 < length p2 then take 300 p2 @ lit ''...'' else p2) @ nl)
     (prompt_of user1 user2 (pairs_text_of user1 user2 shown))"
proof -
  have "pair_block user1 user2 (Suc k) (shown ! k) =
     nl @ lit ''**Pair '' @ str_of_nat (Suc k) @ lit '':**'' @ nl @
      [0x2022] @ lit '' '' @ user1 @ lit '': '' @
        (if 300 < length p1 then take 300 p1 @ lit ''...'' else p1) @ nl @
      [0x2022] @ lit '' '' @ user2 @ lit '': '' @
        (if 300 < length p2 then take 300 p2 @ lit ''...'' else p2) @ nl"
    by (simp add: assms(2) pair_block_def body_line_def shown_body_cases)
  moreover have "sublist (pair_block user1 user2 (Suc k) (shown ! k))
      (pairs_text_of user1 user2 shown)"
    using assms(1) by (rule block_in_pairs_text)
  ultimately have "sublist
     (nl @ lit ''**Pair '' @ str_of_nat (Suc k) @ lit '':**'' @ nl @
      [0x2022] @ lit '' '' @ user1 @ lit '': '' @
        (if 300 < length p1 then take 300 p1 @ lit ''...'' else p1) @ nl @
      [0x2022] @ lit '' '' @ user2 @ lit '': '' @
        (if 300 < length p2 then take 300 p2 @ lit ''...'' else p2) @ nl)
     (pairs_text_of user1 user2 shown)"
    by (simp only:)
  then show ?thesis
    using pairs_text_in_prompt [of "pairs_text_of user1 user2 shown" user1 user2]
    by (rule sublist_order.order.trans)
qed

theorem prompt_truncates_bodies_witness:
  "0 < length [(long_post, lit ''ok'')] \<and> [(long_post, lit ''ok'')] ! 0 = (long_post, lit ''ok'') \<and>
   length long_post = 301 \<and>
   sublist
     (nl @ lit ''**Pair '' @ lit ''1'' @ lit '':**'' @ nl @
      [0x2022] @ lit '' '' @ lit ''alice'' @ lit '': '' @ take 300 long_post @ lit ''...'' @ nl @
      [0x2022] @ lit '' '' @ lit ''bob'' @ lit '': '' @ lit ''ok'' @ nl)
     (prompt_of (lit ''alice'') (lit ''bob'')
        (pairs_text_of (lit ''alice'') (lit ''bob'') [(long_post, lit ''ok'')]))"
proof -
  have k: "0 < length [(long_post, lit ''ok'')]" by simp
  have x: "[(long_post, lit ''ok'')] ! 0 = (long_post, lit ''ok'')" by simp
  have l: "length long_post = 301" by (simp add: long_post_def)
  have c1: "(if 300 < length long_post then take 300 long_post @ lit ''...'' else long_post) =
      take 300 long_post @ lit ''...''"
    by (simp add: l)
  have c2: "(if 300 < length (lit ''ok'') then take 300 (lit ''ok'') @ lit ''...'' else lit ''ok'') =
      lit ''ok''"
    by (simp add: lit_def)
  have d: "str_of_nat (Suc 0) = lit ''1''" by (simp add: lit_def)
  note t = prompt_truncates_bodies [OF k x, of "lit ''alice''" "lit ''bob''", unfolded c1 c2 d]
  from t have "sublist
     (nl @ lit ''**Pair '' @ lit ''1'' @ lit '':**'' @ nl @
      [0x2022] @ lit '' '' @ lit ''alice'' @ lit '': '' @ take 300 long_post @ lit ''...'' @ nl @
      [0x2022] @ lit '' '' @ lit ''bob'' @ lit '': '' @ lit ''ok'' @ nl)
     (prompt_of (lit ''alice'') (lit ''bob'')
        (pairs_text_of (lit ''alice'') (lit ''bob'') [(long_post, lit ''ok'')]))"
    by (simp only: append_assoc)
  with k x l show ?thesis by (simp only: simp_thms)
qed

section \<open>Properties of the provider registry\<close>






lemma lower_groq: "lower ascii_only (lit ''groq'') = lit ''groq''"
  by (simp add: lower_def lit_def)


lemma providers_groq: "providers (lit ''groq'') = Some GroqProvider"
  by (simp add: providers_def lit_def)



lemma init_unset:
  "\<not> truthy (getenv e (credential_env_var c)) \<Longrightarrow>
   init e c = Inr \<lparr>cls = c, api_key = getenv e (credential_env_var c),
                   model = default_model c, client = None\<rparr>"
  by (simp add: init_def Let_def)

lemma init_missing_module:
  "truthy (getenv e (credential_env_var c)) \<Longrightarrow> \<not> importable e (client_module c) \<Longrightarrow>
   init e c = Inl (ImportError (install_hint c))"
  by (simp add: init_def Let_def)

lemma init_ready:
  "getenv e (credential_env_var c) = Some key \<Longrightarrow> key \<noteq> [] \<Longrightarrow> importable e (client_module c) \<Longrightarrow>
   init e c = Inr \<lparr>cls = c, api_key = Some key, model = default_model c,
                   client = Some (new_client c key)\<rparr>"
  by (simp add: init_def Let_def truthy_def get_or_def)

lemma empty_credential_is_unset:
  "getenv e (credential_env_var c) = Some [] \<Longrightarrow>
   init e c = Inr \<lparr>cls = c, api_key = Some [], model = default_model c, client = None\<rparr>"
  by (simp add: init_unset truthy_def)

lemma generate_disabled:
  "client self = None \<Longrightarrow>
   generate e self prompt kw = Inl (ValueError (credential_env_var (cls self) @ lit '' not set''))"
  by (simp add: generate_def)

text \<open>
  Claim C4. For a name the registry knows: when the credential variable is absent,
  \<open>get_provider\<close> returns a provider without a client and \<open>generate\<close> on it raises
  (\<open>ValueError\<close>, "... not set"); when the variable holds a key and the vendor module cannot
  be imported, \<open>get_provider\<close> itself raises \<open>ImportError\<close>.
\<close>

theorem credential_and_dependency_failures:
  assumes "providers (lower (lower_table e) provider_name) = Some c"
  shows "(getenv e (credential_env_var c) = None \<longrightarrow>
           (\<exists>p. get_provider e provider_name = Inr p \<and> cls p = c \<and> client p = None \<and>
                generate e p prompt kw =
                  Inl (ValueError (credential_env_var c @ lit '' not set''))))
       \<and> (\<forall>key. getenv e (credential_env_var c) = Some key \<and> key \<noteq> [] \<and>
                \<not> importable e (client_module c) \<longrightarrow>
              get_provider e provider_name = Inl (ImportError (install_hint c)))"
proof -
  have g: "get_provider e provider_name = init e c"
    using assms by (simp add: get_provider_def)
  have 1: "getenv e (credential_env_var c) = None \<longrightarrow>
           (\<exists>p. get_provider e provider_name = Inr p \<and> cls p = c \<and> client p = None \<and>
                generate e p prompt kw =
                  Inl (ValueError (credential_env_var c @ lit '' not set'')))"
  proof
    assume n: "getenv e (credential_env_var c) = None"
    let ?p = "\<lparr>cls = c, api_key = getenv e (credential_env_var c),
                model = default_model c, client = None\<rparr>"
    have "init e c = Inr ?p" by (rule init_unset) (simp add: n truthy_def)
    moreover have "generate e ?p prompt kw =
        Inl (ValueError (credential_env_var c @ lit '' not set''))"
      by (simp add: generate_disabled)
    ultimately show "\<exists>p. get_provider e provider_name = Inr p \<and> cls p = c \<and> client p = None \<and>
        generate e p prompt kw = Inl (ValueError (credential_env_var c @ lit '' not set''))"
      using g by (intro exI [of _ ?p]) simp
  qed
  have 2: "\<forall>key. getenv e (credential_env_var c) = Some key \<and> key \<noteq> [] \<and>
                \<not> importable e (client_module c) \<longrightarrow>
              get_provider e provider_name = Inl (ImportError (install_hint c))"
    using g by (simp add: init_missing_module truthy_def)
  show ?thesis using 1 2 by blast
qed

lemma groq_var: "credential_env_var GroqProvider = lit ''GROQ_API_KEY''"
  by simp

theorem credential_and_dependency_failures_witness:
  "providers (lower (lower_table bare_env) (lit ''groq'')) = Some GroqProvider
   \<and> getenv bare_env (lit ''GROQ_API_KEY'') = None
   \<and> (\<exists>p. get_provider bare_env (lit ''groq'') = Inr p \<and> cls p = GroqProvider \<and> client p = None \<and>
          generate bare_env p (lit ''hello'') \<lparr>kw_model = None, kw_temperature = None, kw_max_tokens = None\<rparr> =
            Inl (ValueError (lit ''GROQ_API_KEY'' @ lit '' not set'')))
   \<and> providers (lower (lower_table keyed_env) (lit ''groq'')) = Some GroqProvider
   \<and> getenv keyed_env (lit ''GROQ_API_KEY'') = Some (lit ''gsk_demo'')
   \<and> lit ''gsk_demo'' \<noteq> []
   \<and> \<not> importable keyed_env (client_module GroqProvider)
   \<and> get_provider keyed_env (lit ''groq'') = Inl (ImportError (lit ''Install groq: pip install groq''))"
proof -
  have tb: "lower_table bare_env = ascii_only" by (simp add: bare_env_def)
  have tk: "lower_table keyed_env = ascii_only" by (simp add: keyed_env_def)
  have a: "providers (lower (lower_table bare_env) (lit ''groq'')) = Some GroqProvider"
    by (simp only: tb lower_groq providers_groq)
  have b: "getenv bare_env (lit ''GROQ_API_KEY'') = None" by (simp add: bare_env_def)
  have c: "providers (lower (lower_table keyed_env) (lit ''groq'')) = Some GroqProvider"
    by (simp only: tk lower_groq providers_groq)
  have d: "getenv keyed_env (lit ''GROQ_API_KEY'') = Some (lit ''gsk_demo'')"
    by (simp add: keyed_env_def)
  have e: "lit ''gsk_demo'' \<noteq> []" by (simp add: lit_def)
  have f: "\<not> importable keyed_env (client_module GroqProvider)" by (simp add: keyed_env_def)
  note u1 = credential_and_dependency_failures [OF a, of "lit ''hello''"
      "\<lparr>kw_model = None, kw_temperature = None, kw_max_tokens = None\<rparr>", unfolded groq_var]
  note u2 = credential_and_dependency_failures [OF c, of "lit ''hello''"
      "\<lparr>kw_model = None, kw_temperature = None, kw_max_tokens = None\<rparr>", unfolded groq_var]
  from u1 b have g: "\<exists>p. get_provider bare_env (lit ''groq'') = Inr p \<and> cls p = GroqProvider \<and>
      client p = None \<and>
      generate bare_env p (lit ''hello'') \<lparr>kw_model = None, kw_temperature = None, kw_max_tokens = None\<rparr> =
        Inl (ValueError (lit ''GROQ_API_KEY'' @ lit '' not set''))"
    by blast
  from u2 d e f have "get_provider keyed_env (lit ''groq'') = Inl (ImportError (install_hint GroqProvider))"
    by blast
  then have h: "get_provider keyed_env (lit ''groq'') =
      Inl (ImportError (lit ''Install groq: pip install groq''))" by simp
  show ?thesis using a b g c d e f h by blast
qed

section \<open>Properties of the scraper\<close>





lemma fetch_try_rows:
  assumes "submissions_new api r username (limit div 2) = Inr subs"
    and "comments_new api r username (limit div 2) = Inr coms"
    and "submission_rows subs @ comment_rows coms \<noteq> []"
  shows "fst (fetch_try api r username limit log0) =
     Inr (sort_values_score_desc api (submission_rows subs @ comment_rows coms))"
  using assms by (simp add: fetch_try_def Let_def)








end
